theory Spec2Isabelle
  imports Main
begin

section \<open>The script \<open>add_files_to_xcode.py\<close>\<close>

text \<open>
  The script changes into a fixed project directory, walks a fixed list of thirteen
  relative paths and, for every path that exists, asks Xcode through \<open>osascript\<close> to
  open it. Everything the script does is an interaction with its surroundings, so the
  embedding has two parts: a \<open>world\<close> that answers the script's questions, and a trace of
  the interactions the script performs, in the order it performs them.
\<close>

subsection \<open>The surroundings\<close>

text \<open>
  \<open>subprocess.run(cmd, shell=True, capture_output=True, text=True)\<close> yields a completed
  process: the exit status and the two captured streams.
\<close>

record completed_process =
  returncode :: int
  stdout :: string
  stderr :: string

text \<open>
  What happens when a command is handed to the shell.
  \<^item> \<open>Completed r\<close>: the command ran to its end and both captured streams are text.
  \<^item> \<open>Undecodable n\<close>: the command ran to its end with status \<open>n\<close>, but a captured
    stream is not text in the encoding of the locale; \<open>text=True\<close> then raises
    \<open>UnicodeDecodeError\<close> before the status is looked at.
  \<^item> \<open>Cannot_start\<close>: the shell could not be started; \<open>subprocess.run\<close> raises
    \<open>OSError\<close>.
\<close>

datatype spawn =
    Completed completed_process
  | Undecodable int
  | Cannot_start

text \<open>What \<open>os.chdir\<close> finds at a path.\<close>

datatype dir_state = Enterable | Missing | Not_a_directory | No_permission

text \<open>
  The world gives the answer of each library call the script makes.
  \<^item> \<open>directory d\<close>: what \<open>os.chdir(d)\<close> finds.
  \<^item> \<open>path_exists p\<close>: the answer of \<open>os.path.exists(p)\<close>, asked inside the project
    directory. The listed paths are pairwise different and each is asked about at most
    once, so one answer per path records the whole run.
  \<^item> \<open>abspath p\<close>: the string \<open>os.path.abspath(p)\<close> returns inside the project
    directory. Python computes it from the text of \<open>p\<close> and the name of the working
    directory; no file is looked at.
  \<^item> \<open>shell cmd\<close>: what handing \<open>cmd\<close> to the shell leads to. Listed paths with
    different absolute forms give different commands, so one answer per command text
    records the whole run.
  \<^item> \<open>stdout_fails_at\<close>: \<open>None\<close> when every \<open>print\<close> can write; \<open>Some k\<close> when the
    \<open>print\<close> call that follows \<open>k\<close> successful ones raises \<open>OSError\<close>. Nothing in the
    script catches that exception, so no later call matters.
  \<^item> \<open>flush_ok\<close>: whether the interpreter can flush the standard streams when it ends.
\<close>

record world =
  directory :: "string \<Rightarrow> dir_state"
  path_exists :: "string \<Rightarrow> bool"
  abspath :: "string \<Rightarrow> string"
  shell :: "string \<Rightarrow> spawn"
  stdout_fails_at :: "nat option"
  flush_ok :: bool

text \<open>
  The operations a Python process has on its surroundings, as far as this development
  speaks about them: \<open>Chdir d\<close> is a call of \<open>os.chdir\<close>, \<open>Exists p\<close> a call of
  \<open>os.path.exists\<close>, \<open>Print x\<close> a call of \<open>print\<close> that wrote \<open>x\<close> and a newline, and
  \<open>Shell c\<close> a call of \<open>subprocess.run\<close> with the command \<open>c\<close>. The last three are
  operations the script could perform on files; they are here so that their absence from
  a run can be stated.
\<close>

datatype event =
    Chdir string
  | Exists string
  | Print string
  | Shell string
  | Read_file string
  | Write_file string
  | Remove_file string

type_synonym trace = "event list"

text \<open>The texts written to standard output, one for each \<open>print\<close> call, the oldest first.\<close>

fun printed :: "trace \<Rightarrow> string list" where
  "printed [] = []"
| "printed (Print x # t) = x # printed t"
| "printed (e # t) = printed t"

text \<open>
  The exceptions that occur. \<open>OSError\<close> stands for the class and its subclasses other
  than the three named ones, such as \<open>BrokenPipeError\<close>.
\<close>

datatype exn =
    FileNotFoundError string
  | NotADirectoryError string
  | PermissionError string
  | CalledProcessError string completed_process
  | UnicodeDecodeError
  | ValueError
  | OSError

subsection \<open>Library calls\<close>

text \<open>\<open>print(x)\<close> writes \<open>x\<close> and a newline, or raises when standard output fails.\<close>

definition print :: "world \<Rightarrow> string \<Rightarrow> trace \<Rightarrow> (exn + unit) \<times> trace" where
  "print w x t =
     (if stdout_fails_at w = Some (length (printed t)) then (Inl OSError, t)
      else (Inr (), t @ [Print x]))"

definition os_chdir :: "world \<Rightarrow> string \<Rightarrow> trace \<Rightarrow> (exn + unit) \<times> trace" where
  "os_chdir w d t =
     (case directory w d of
        Enterable \<Rightarrow> (Inr (), t @ [Chdir d])
      | Missing \<Rightarrow> (Inl (FileNotFoundError d), t @ [Chdir d])
      | Not_a_directory \<Rightarrow> (Inl (NotADirectoryError d), t @ [Chdir d])
      | No_permission \<Rightarrow> (Inl (PermissionError d), t @ [Chdir d]))"

definition os_path_exists :: "world \<Rightarrow> string \<Rightarrow> trace \<Rightarrow> bool \<times> trace" where
  "os_path_exists w p t = (path_exists w p, t @ [Exists p])"

text \<open>
  \<open>subprocess.run\<close> with \<open>check=True\<close>. A command text that holds a NUL character is
  refused with \<open>ValueError\<close>; a non-zero exit status of a completed process is raised as
  \<open>CalledProcessError\<close>.
\<close>

definition subprocess_run ::
  "world \<Rightarrow> string \<Rightarrow> trace \<Rightarrow> (exn + completed_process) \<times> trace" where
  "subprocess_run w cmd t =
     (if CHR 0x00 \<in> set cmd then (Inl ValueError, t @ [Shell cmd])
      else case shell w cmd of
             Cannot_start \<Rightarrow> (Inl OSError, t @ [Shell cmd])
           | Undecodable n \<Rightarrow> (Inl UnicodeDecodeError, t @ [Shell cmd])
           | Completed r \<Rightarrow>
               if returncode r \<noteq> 0 then (Inl (CalledProcessError cmd r), t @ [Shell cmd])
               else (Inr r, t @ [Shell cmd]))"

text \<open>
  \<open>str.strip()\<close> removes the white space at both ends. A \<open>char\<close> stands for the code
  point of the same number; below 256 Python's white space is 9 to 13, 28 to 32, 133
  and 160.
\<close>

definition isspace :: "char \<Rightarrow> bool" where
  "isspace c =
     (let n = (of_char c :: nat)
      in (9 \<le> n \<and> n \<le> 13) \<or> (28 \<le> n \<and> n \<le> 32) \<or> n = 133 \<or> n = 160)"

definition strip :: "string \<Rightarrow> string" where
  "strip s = rev (dropWhile isspace (rev (dropWhile isspace s)))"

subsection \<open>The script\<close>

text \<open>
  \<open>run_command\<close>: the result is \<open>Some\<close> of the stripped standard output, or \<open>None\<close>
  for Python's \<open>None\<close>. Only \<open>CalledProcessError\<close> is caught; any other exception of
  \<open>subprocess.run\<close>, and an exception of a \<open>print\<close> in the handler, leaves the function.
\<close>

definition run_command ::
  "world \<Rightarrow> string \<Rightarrow> trace \<Rightarrow> (exn + string option) \<times> trace" where
  "run_command w cmd t =
     (case subprocess_run w cmd t of
        (Inr result, t1) \<Rightarrow> (Inr (Some (strip (stdout result))), t1)
      | (Inl (CalledProcessError c e), t1) \<Rightarrow>
          (case print w (''Error running command: '' @ cmd) t1 of
             (Inl x, t2) \<Rightarrow> (Inl x, t2)
           | (Inr u, t2) \<Rightarrow>
               (case print w (''Error: '' @ stderr e) t2 of
                  (Inl x, t3) \<Rightarrow> (Inl x, t3)
                | (Inr u', t3) \<Rightarrow> (Inr None, t3)))
      | (Inl x, t1) \<Rightarrow> (Inl x, t1))"

definition project_dir :: string where
  "project_dir = ''/Users/henryfritz/Personal Projects/PrestigeNative''"

definition files_to_add :: "string list" where
  "files_to_add =
     [''PrestigeNative/Core/Models/APIEndpoints.swift'',
      ''PrestigeNative/Core/Models/APIModels.swift'',
      ''PrestigeNative/Core/Models/PrestigeModels.swift'',
      ''PrestigeNative/Core/Models/UserModels.swift'',
      ''PrestigeNative/Core/Networking/APIClient.swift'',
      ''PrestigeNative/Core/Networking/AuthManager.swift'',
      ''PrestigeNative/Core/Networking/Services/FriendsService.swift'',
      ''PrestigeNative/Core/Networking/Services/ProfileService.swift'',
      ''PrestigeNative/Core/Networking/Services/SpotifyService.swift'',
      ''PrestigeNative/Features/Authentication/Components/LoadingButton.swift'',
      ''PrestigeNative/Features/Authentication/ViewModels/LoginViewModel.swift'',
      ''PrestigeNative/Features/Authentication/Views/AuthenticationView.swift'',
      ''PrestigeNative/Features/Authentication/Views/LoginView.swift'']"

text \<open>The two quote characters of the command text.\<close>

definition sq :: char where
  "sq = CHR 0x27"

definition dq :: char where
  "dq = CHR 0x22"

text \<open>
  The f-string of line 46, with the absolute path put between the double quotes as
  it is.
\<close>

definition open_command :: "string \<Rightarrow> string" where
  "open_command a =
     ''osascript -e '' @ [sq] @ ''tell application '' @ [dq] @ ''Xcode'' @ [dq] @
     '' to open '' @ [dq] @ a @ [dq] @ '';'' @ [sq]"

definition closing_message :: string where
  "closing_message =
     ''Files added to Xcode project. Please check Xcode to confirm they appear in the navigator.''"

text \<open>
  The \<open>for\<close> loop of \<open>main\<close>, lines 42 to 49. The value \<open>run_command\<close> returns is
  dropped; an exception leaves the loop and the rest of the list is not looked at.
\<close>

fun add_each :: "world \<Rightarrow> string list \<Rightarrow> trace \<Rightarrow> (exn + unit) \<times> trace" where
  "add_each w [] t = (Inr (), t)"
| "add_each w (file_path # rest) t =
     (case os_path_exists w file_path t of
        (True, t1) \<Rightarrow>
          (case print w (''Adding '' @ file_path @ '' to Xcode project...'') t1 of
             (Inl x, t2) \<Rightarrow> (Inl x, t2)
           | (Inr u, t2) \<Rightarrow>
               (let cmd = open_command (abspath w file_path)
                in case run_command w cmd t2 of
                     (Inl x, t3) \<Rightarrow> (Inl x, t3)
                   | (Inr r, t3) \<Rightarrow> add_each w rest t3))
      | (False, t1) \<Rightarrow>
          (case print w (''Warning: '' @ file_path @ '' does not exist'') t1 of
             (Inl x, t2) \<Rightarrow> (Inl x, t2)
           | (Inr u, t2) \<Rightarrow> add_each w rest t2))"

definition main :: "world \<Rightarrow> trace \<Rightarrow> (exn + unit) \<times> trace" where
  "main w t =
     (case os_chdir w project_dir t of
        (Inl x, t1) \<Rightarrow> (Inl x, t1)
      | (Inr u, t1) \<Rightarrow>
          (case add_each w files_to_add t1 of
             (Inl x, t2) \<Rightarrow> (Inl x, t2)
           | (Inr u', t2) \<Rightarrow> print w closing_message t2))"

text \<open>
  The process as a whole: \<open>main()\<close> is called with nothing done yet. The interpreter
  ends with status 120 when it cannot flush the standard streams, and else with status
  0 when \<open>main\<close> returned and with status 1 on an exception nobody caught.
\<close>

definition script :: "world \<Rightarrow> int \<times> trace" where
  "script w =
     (case main w [] of
        (Inl x, t) \<Rightarrow> (if flush_ok w then 1 else 120, t)
      | (Inr u, t) \<Rightarrow> (if flush_ok w then 0 else 120, t))"

subsection \<open>Reading a trace\<close>

text \<open>The commands \<open>subprocess.run\<close> was called with, the oldest first.\<close>

fun spawned :: "trace \<Rightarrow> string list" where
  "spawned [] = []"
| "spawned (Shell c # t) = c # spawned t"
| "spawned (e # t) = spawned t"

text \<open>The paths whose existence was asked for, the oldest first.\<close>

fun probed :: "trace \<Rightarrow> string list" where
  "probed [] = []"
| "probed (Exists p # t) = p # probed t"
| "probed (e # t) = probed t"

text \<open>The events that act on the file system.\<close>

fun on_file_system :: "event \<Rightarrow> bool" where
  "on_file_system (Print x) = False"
| "on_file_system (Shell c) = False"
| "on_file_system e = True"

text \<open>The events that read, write or remove a file.\<close>

fun file_access :: "event \<Rightarrow> bool" where
  "file_access (Read_file p) = True"
| "file_access (Write_file p) = True"
| "file_access (Remove_file p) = True"
| "file_access e = False"

text \<open>The three kinds of line the loop writes.\<close>

definition adding_line :: "string \<Rightarrow> string" where
  "adding_line p = ''Adding '' @ p @ '' to Xcode project...''"

definition warning_line :: "string \<Rightarrow> string" where
  "warning_line p = ''Warning: '' @ p @ '' does not exist''"

definition error_lines :: "string \<Rightarrow> string \<Rightarrow> string list" where
  "error_lines cmd err = [''Error running command: '' @ cmd, ''Error: '' @ err]"

definition is_error_line :: "string \<Rightarrow> bool" where
  "is_error_line l = (take 5 l = ''Error'')"

text \<open>The line that tells what the loop decided for a path.\<close>

definition decided_line :: "world \<Rightarrow> string \<Rightarrow> string" where
  "decided_line w p = (if path_exists w p then adding_line p else warning_line p)"

text \<open>The command the loop builds for a path.\<close>

definition command_for :: "world \<Rightarrow> string \<Rightarrow> string" where
  "command_for w p = open_command (abspath w p)"

text \<open>
  A command completes when \<open>subprocess.run\<close> gets a completed process for it, whatever
  the exit status: the text holds no NUL, the shell starts and the output is text.
\<close>

definition completes :: "world \<Rightarrow> string \<Rightarrow> bool" where
  "completes w cmd =
     (CHR 0x00 \<notin> set cmd \<and>
      (case shell w cmd of Completed r \<Rightarrow> True | Undecodable n \<Rightarrow> False
       | Cannot_start \<Rightarrow> False))"

text \<open>The completed process of a command that completes.\<close>

definition result_of :: "world \<Rightarrow> string \<Rightarrow> completed_process" where
  "result_of w cmd =
     (case shell w cmd of
        Completed r \<Rightarrow> r
      | Undecodable n \<Rightarrow> \<lparr>returncode = n, stdout = [], stderr = []\<rparr>
      | Cannot_start \<Rightarrow> \<lparr>returncode = 0, stdout = [], stderr = []\<rparr>)"

definition fails :: "world \<Rightarrow> string \<Rightarrow> bool" where
  "fails w cmd = (returncode (result_of w cmd) \<noteq> 0)"

text \<open>
  The events of one turn of the loop when every write succeeds and the command, if one
  is run, completes.
\<close>

definition file_events :: "world \<Rightarrow> string \<Rightarrow> trace" where
  "file_events w p =
     (if path_exists w p
      then [Exists p, Print (adding_line p), Shell (command_for w p)] @
           (if fails w (command_for w p)
            then map Print (error_lines (command_for w p)
                             (stderr (result_of w (command_for w p))))
            else [])
      else [Exists p, Print (warning_line p)])"

text \<open>One turn of the loop: the body of the \<open>for\<close> statement for one path.\<close>

definition turn :: "world \<Rightarrow> string \<Rightarrow> trace \<Rightarrow> (exn + unit) \<times> trace" where
  "turn w p t =
     (case os_path_exists w p t of
        (True, t1) \<Rightarrow>
          (case print w (''Adding '' @ p @ '' to Xcode project...'') t1 of
             (Inl x, t2) \<Rightarrow> (Inl x, t2)
           | (Inr u, t2) \<Rightarrow>
               (case run_command w (open_command (abspath w p)) t2 of
                  (Inl x, t3) \<Rightarrow> (Inl x, t3)
                | (Inr r, t3) \<Rightarrow> (Inr (), t3)))
      | (False, t1) \<Rightarrow> print w (''Warning: '' @ p @ '' does not exist'') t1)"

text \<open>
  The text between the first two single quotes of a command: what the shell, which
  knows no escape inside single quotes, hands to \<open>osascript\<close> as the script.
\<close>

definition single_quoted :: "string \<Rightarrow> string" where
  "single_quoted cmd = takeWhile (\<lambda>c. c \<noteq> sq) (tl (dropWhile (\<lambda>c. c \<noteq> sq) cmd))"

text \<open>The AppleScript text the script means to hand over.\<close>

definition apple_script :: "string \<Rightarrow> string" where
  "apple_script a =
     ''tell application '' @ [dq] @ ''Xcode'' @ [dq] @ '' to open '' @ [dq] @ a @ [dq] @ '';''"

text \<open>The characters that carry quoting: both quotes and the backslash.\<close>

definition is_quoting :: "char \<Rightarrow> bool" where
  "is_quoting c = (c = sq \<or> c = dq \<or> c = CHR 0x5C)"

text \<open>A completed process with another standard output; anything else as it is.\<close>

fun with_stdout :: "string \<Rightarrow> spawn \<Rightarrow> spawn" where
  "with_stdout s (Completed r) = Completed (r\<lparr>stdout := s\<rparr>)"
| "with_stdout s (Undecodable n) = Undecodable n"
| "with_stdout s Cannot_start = Cannot_start"

subsection \<open>Example surroundings\<close>

text \<open>
  The project directory is there and holds the first two listed files; opening the first
  ends with status 1, opening the second succeeds; standard output works.
\<close>

definition failed_run :: completed_process where
  "failed_run = \<lparr>returncode = 1, stdout = [], stderr = ''execution error''\<rparr>"

definition good_run :: completed_process where
  "good_run = \<lparr>returncode = 0, stdout = '' done '', stderr = []\<rparr>"

definition example_world :: world where
  "example_world =
     \<lparr>directory = (\<lambda>d. if d = project_dir then Enterable else Missing),
      path_exists = (\<lambda>p. p = ''PrestigeNative/Core/Models/APIEndpoints.swift'' \<or>
                          p = ''PrestigeNative/Core/Models/APIModels.swift''),
      abspath = (\<lambda>p. project_dir @ ''/'' @ p),
      shell = (\<lambda>c. Completed
                 (if c = open_command
                           (project_dir @ ''/PrestigeNative/Core/Models/APIEndpoints.swift'')
                  then failed_run else good_run)),
      stdout_fails_at = None,
      flush_ok = True\<rparr>"


text \<open>The same files, with every command ending with status 1 and output that is not text.\<close>

definition broken_world :: world where
  "broken_world = example_world\<lparr>shell := (\<lambda>c. Undecodable 1)\<rparr>"

text \<open>No project directory.\<close>

definition empty_world :: world where
  "empty_world = example_world\<lparr>directory := (\<lambda>d. Missing)\<rparr>"

text \<open>A plain file where the project directory should be.\<close>

definition file_world :: world where
  "file_world = example_world\<lparr>directory := (\<lambda>d. Not_a_directory)\<rparr>"

section \<open>The shape of a run\<close>

lemma printed_append: "printed (s @ t) = printed s @ printed t"
  by (induction s rule: printed.induct) simp_all

lemma spawned_append: "spawned (s @ t) = spawned s @ spawned t"
  by (induction s rule: spawned.induct) simp_all

lemma probed_append: "probed (s @ t) = probed s @ probed t"
  by (induction s rule: probed.induct) simp_all

lemma add_each_turn:
  "add_each w (p # rest) t =
     (case turn w p t of (Inl x, t1) \<Rightarrow> (Inl x, t1) | (Inr u, t1) \<Rightarrow> add_each w rest t1)"
  by (simp add: turn_def Let_def split: prod.splits sum.splits bool.splits)

subsection \<open>Runs in which every command completes and every write succeeds\<close>

lemma print_steady:
  "stdout_fails_at w = None \<Longrightarrow> print w x t = (Inr (), t @ [Print x])"
  by (simp add: print_def)

lemma run_command_steady:
  assumes "stdout_fails_at w = None" and "completes w cmd"
  shows "run_command w cmd t =
     (if fails w cmd
      then (Inr None, t @ [Shell cmd] @ map Print (error_lines cmd (stderr (result_of w cmd))))
      else (Inr (Some (strip (stdout (result_of w cmd)))), t @ [Shell cmd]))"
  using assms
  by (auto simp: run_command_def subprocess_run_def completes_def fails_def result_of_def
      print_steady error_lines_def split: spawn.splits)

lemma turn_steady:
  assumes "stdout_fails_at w = None"
    and "path_exists w p \<longrightarrow> completes w (command_for w p)"
  shows "turn w p t = (Inr (), t @ file_events w p)"
  using assms
  by (simp add: turn_def os_path_exists_def print_steady run_command_steady file_events_def
      adding_line_def warning_line_def command_for_def)

lemma add_each_steady:
  assumes "stdout_fails_at w = None"
    and "\<forall>p \<in> set ps. path_exists w p \<longrightarrow> completes w (command_for w p)"
  shows "add_each w ps t = (Inr (), t @ concat (map (file_events w) ps))"
  using assms
proof (induction ps arbitrary: t)
  case Nil
  show ?case by simp
next
  case (Cons p ps)
  then have "turn w p t = (Inr (), t @ file_events w p)"
    by (simp add: turn_steady)
  with Cons show ?case
    by (simp del: add_each.simps add: add_each_turn)
qed

lemma main_steady:
  assumes "directory w project_dir = Enterable" and "stdout_fails_at w = None"
    and "\<forall>p \<in> set files_to_add. path_exists w p \<longrightarrow> completes w (command_for w p)"
  shows "main w t =
     (Inr (), t @ [Chdir project_dir] @ concat (map (file_events w) files_to_add) @
              [Print closing_message])"
  using assms by (simp add: main_def os_chdir_def add_each_steady print_steady)

lemma main_no_directory:
  assumes "directory w project_dir \<noteq> Enterable"
  shows "snd (main w t) = t @ [Chdir project_dir]" and "fst (main w t) \<noteq> Inr ()"
  using assms by (auto simp: main_def os_chdir_def split: dir_state.splits)

subsection \<open>Runs in general: what was done is a first part of what a full run does\<close>

lemma add_each_part:
  assumes part: "\<And>p t. X (snd (turn w p t)) = X t \<or> X (snd (turn w p t)) = X t @ g p"
    and full: "\<And>p t. fst (turn w p t) = Inr () \<Longrightarrow> X (snd (turn w p t)) = X t @ g p"
  shows "\<exists>n. X (snd (add_each w ps t)) = X t @ take n (concat (map g ps))"
proof (induction ps arbitrary: t)
  case Nil
  show ?case by simp
next
  case (Cons p ps)
  obtain r t1 where tr: "turn w p t = (r, t1)"
    by (cases "turn w p t")
  show ?case
  proof (cases r)
    case (Inl x)
    then have a: "snd (add_each w (p # ps) t) = t1"
      using tr by (simp del: add_each.simps add: add_each_turn)
    from part [of p t] tr have "X t1 = X t \<or> X t1 = X t @ g p"
      by simp
    then show ?thesis
    proof
      assume "X t1 = X t"
      then have "X (snd (add_each w (p # ps) t)) = X t @ take 0 (concat (map g (p # ps)))"
        using a by simp
      then show ?thesis by blast
    next
      assume "X t1 = X t @ g p"
      then have "X (snd (add_each w (p # ps) t)) =
                   X t @ take (length (g p)) (concat (map g (p # ps)))"
        using a by simp
      then show ?thesis by blast
    qed
  next
    case (Inr u)
    then have a: "add_each w (p # ps) t = add_each w ps t1"
      using tr by (simp del: add_each.simps add: add_each_turn)
    from full [of p t] tr Inr have b: "X t1 = X t @ g p"
      by simp
    from Cons.IH [of t1] obtain m where
      "X (snd (add_each w ps t1)) = X t1 @ take m (concat (map g ps))"
      by blast
    with a b have "X (snd (add_each w (p # ps) t)) =
                     X t @ take (length (g p) + m) (concat (map g (p # ps)))"
      by simp
    then show ?thesis by blast
  qed
qed


text \<open>What one turn adds to the commands, the checks and the lines of a trace.\<close>

lemma turn_spawned:
  "spawned (snd (turn w p t)) = spawned t \<or>
   spawned (snd (turn w p t)) = spawned t @ (if path_exists w p then [command_for w p] else [])"
  by (auto simp: turn_def os_path_exists_def print_def run_command_def subprocess_run_def
      spawned_append command_for_def split: spawn.splits bool.splits)

lemma turn_spawned_full:
  "fst (turn w p t) = Inr () \<Longrightarrow>
   spawned (snd (turn w p t)) = spawned t @ (if path_exists w p then [command_for w p] else [])"
  by (auto simp: turn_def os_path_exists_def print_def run_command_def subprocess_run_def
      spawned_append command_for_def split: spawn.splits bool.splits if_splits)

lemma turn_on_file_system:
  "filter on_file_system (snd (turn w p t)) = filter on_file_system t @ [Exists p]"
  by (auto simp: turn_def os_path_exists_def print_def run_command_def subprocess_run_def
      split: spawn.splits bool.splits)

lemma turn_probed: "probed (snd (turn w p t)) = probed t @ [p]"
  by (auto simp: turn_def os_path_exists_def print_def run_command_def subprocess_run_def
      probed_append split: spawn.splits bool.splits)

lemma turn_file_access:
  "filter file_access (snd (turn w p t)) = filter file_access t"
  by (auto simp: turn_def os_path_exists_def print_def run_command_def subprocess_run_def
      split: spawn.splits bool.splits)



lemma concat_optional:
  "concat (map (\<lambda>p. if P p then [f p] else []) ps) = map f (filter P ps)"
  by (induction ps) simp_all

lemma concat_single: "concat (map (\<lambda>p. [f p]) ps) = map f ps"
  by (induction ps) simp_all

lemma add_each_spawned_part:
  "\<exists>n. spawned (snd (add_each w ps t)) =
        spawned t @ take n (map (command_for w) (filter (path_exists w) ps))"
  using add_each_part [of spawned w "\<lambda>p. if path_exists w p then [command_for w p] else []" ps t]
    turn_spawned turn_spawned_full
  by (simp add: concat_optional)

lemma add_each_on_file_system_part:
  "\<exists>n. filter on_file_system (snd (add_each w ps t)) =
        filter on_file_system t @ map Exists (take n ps)"
  using add_each_part [of "filter on_file_system" w "\<lambda>p. [Exists p]" ps t]
  by (simp add: turn_on_file_system concat_single take_map)

lemma add_each_probed_part:
  "\<exists>n. probed (snd (add_each w ps t)) = probed t @ take n ps"
  using add_each_part [of probed w "\<lambda>p. [p]" ps t]
  by (simp add: turn_probed)

lemma add_each_file_access:
  "filter file_access (snd (add_each w ps t)) = filter file_access t"
proof (induction ps arbitrary: t)
  case Nil
  show ?case by simp
next
  case (Cons p ps)
  obtain r t1 where tr: "turn w p t = (r, t1)"
    by (cases "turn w p t")
  then have "filter file_access t1 = filter file_access t"
    using turn_file_access [of w p t] by simp
  with tr Cons show ?case
    by (cases r) (simp_all del: add_each.simps add: add_each_turn)
qed



text \<open>The three ways a run of \<open>main\<close> can go.\<close>

lemma main_cases:
  "(directory w project_dir \<noteq> Enterable \<and> snd (main w t) = t @ [Chdir project_dir]) \<or>
   (directory w project_dir = Enterable \<and>
    fst (add_each w files_to_add (t @ [Chdir project_dir])) \<noteq> Inr () \<and>
    main w t = add_each w files_to_add (t @ [Chdir project_dir])) \<or>
   (directory w project_dir = Enterable \<and>
    fst (add_each w files_to_add (t @ [Chdir project_dir])) = Inr () \<and>
    main w t = print w closing_message (snd (add_each w files_to_add (t @ [Chdir project_dir]))))"
  by (auto simp: main_def os_chdir_def split: dir_state.splits prod.splits sum.splits)

lemma print_outcome: "snd (print w x t) = t \<or> snd (print w x t) = t @ [Print x]"
  by (simp add: print_def)

lemma main_spawned_part:
  "\<exists>n. spawned (snd (main w [])) =
        take n (map (command_for w) (filter (path_exists w) files_to_add))"
proof -
  obtain m where m: "spawned (snd (add_each w files_to_add [Chdir project_dir])) =
      take m (map (command_for w) (filter (path_exists w) files_to_add))"
    using add_each_spawned_part [of w files_to_add "[Chdir project_dir]"] by auto
  have z: "[] = take 0 (map (command_for w) (filter (path_exists w) files_to_add))"
    by simp
  from main_cases [of w "[]"] show ?thesis
  proof (elim disjE conjE)
    assume "snd (main w []) = [] @ [Chdir project_dir]"
    then have "spawned (snd (main w [])) = []" by simp
    with z show ?thesis by metis
  next
    assume "main w [] = add_each w files_to_add ([] @ [Chdir project_dir])"
    with m show ?thesis by auto
  next
    assume "main w [] =
      print w closing_message (snd (add_each w files_to_add ([] @ [Chdir project_dir])))"
    then have "spawned (snd (main w [])) =
      spawned (snd (add_each w files_to_add [Chdir project_dir]))"
      using print_outcome [of w closing_message "snd (add_each w files_to_add [Chdir project_dir])"]
      by (auto simp: spawned_append)
    with m show ?thesis by auto
  qed
qed

lemma main_on_file_system_part:
  "\<exists>n. filter on_file_system (snd (main w [])) =
        Chdir project_dir # map Exists (take n files_to_add)"
proof -
  obtain m where m: "filter on_file_system (snd (add_each w files_to_add [Chdir project_dir])) =
      Chdir project_dir # map Exists (take m files_to_add)"
    using add_each_on_file_system_part [of w files_to_add "[Chdir project_dir]"] by auto
  from main_cases [of w "[]"] show ?thesis
  proof (elim disjE conjE)
    assume "snd (main w []) = [] @ [Chdir project_dir]"
    then have "filter on_file_system (snd (main w [])) =
      Chdir project_dir # map Exists (take 0 files_to_add)" by simp
    then show ?thesis by blast
  next
    assume "main w [] = add_each w files_to_add ([] @ [Chdir project_dir])"
    with m show ?thesis by auto
  next
    assume "main w [] =
      print w closing_message (snd (add_each w files_to_add ([] @ [Chdir project_dir])))"
    then have "filter on_file_system (snd (main w [])) =
      filter on_file_system (snd (add_each w files_to_add [Chdir project_dir]))"
      using print_outcome [of w closing_message "snd (add_each w files_to_add [Chdir project_dir])"]
      by auto
    with m show ?thesis by auto
  qed
qed

lemma main_probed_part: "\<exists>n. probed (snd (main w [])) = take n files_to_add"
proof -
  obtain m where m: "probed (snd (add_each w files_to_add [Chdir project_dir])) =
      take m files_to_add"
    using add_each_probed_part [of w files_to_add "[Chdir project_dir]"] by auto
  from main_cases [of w "[]"] show ?thesis
  proof (elim disjE conjE)
    assume "snd (main w []) = [] @ [Chdir project_dir]"
    then have "probed (snd (main w [])) = take 0 files_to_add" by simp
    then show ?thesis by blast
  next
    assume "main w [] = add_each w files_to_add ([] @ [Chdir project_dir])"
    with m show ?thesis by auto
  next
    assume "main w [] =
      print w closing_message (snd (add_each w files_to_add ([] @ [Chdir project_dir])))"
    then have "probed (snd (main w [])) =
      probed (snd (add_each w files_to_add [Chdir project_dir]))"
      using print_outcome [of w closing_message "snd (add_each w files_to_add [Chdir project_dir])"]
      by (auto simp: probed_append)
    with m show ?thesis by auto
  qed
qed

lemma main_file_access: "filter file_access (snd (main w [])) = []"
  using main_cases [of w "[]"]
    print_outcome [of w closing_message "snd (add_each w files_to_add [Chdir project_dir])"]
  by (auto simp: add_each_file_access)

lemma is_error_closing: "\<not> is_error_line closing_message"
  by (simp add: is_error_line_def closing_message_def)


subsection \<open>The list and the turns of a run without exceptions\<close>

lemma files_to_add_distinct: "distinct files_to_add"
  by (simp add: files_to_add_def)

lemma files_to_add_length: "length files_to_add = 13"
  by (simp add: files_to_add_def)

lemma spawned_file_events:
  "spawned (file_events w p) = (if path_exists w p then [command_for w p] else [])"
  by (simp add: file_events_def error_lines_def)

lemma probed_file_events: "probed (file_events w p) = [p]"
  by (simp add: file_events_def error_lines_def)

lemma printed_file_events:
  "printed (file_events w p) =
     (if path_exists w p
      then adding_line p #
           (if fails w (command_for w p)
            then error_lines (command_for w p) (stderr (result_of w (command_for w p)))
            else [])
      else [warning_line p])"
  by (simp add: file_events_def error_lines_def)

lemma spawned_concat:
  "spawned (concat (map (file_events w) ps)) = map (command_for w) (filter (path_exists w) ps)"
  by (induction ps) (simp_all add: spawned_append spawned_file_events)

lemma probed_concat: "probed (concat (map (file_events w) ps)) = ps"
  by (induction ps) (simp_all add: probed_append probed_file_events)

subsection \<open>Telling the kinds of line apart\<close>












lemma decided_file_events:
  "filter (\<lambda>l. \<not> is_error_line l) (printed (file_events w p)) = [decided_line w p]"
  by (simp add: printed_file_events is_error_line_def adding_line_def warning_line_def
      error_lines_def decided_line_def)

lemma decided_concat:
  "filter (\<lambda>l. \<not> is_error_line l) (printed (concat (map (file_events w) ps))) =
     map (decided_line w) ps"
  by (induction ps) (simp_all add: printed_append decided_file_events)

subsection \<open>Events on the file system\<close>

lemma on_file_system_file_events: "filter on_file_system (file_events w p) = [Exists p]"
  by (simp add: file_events_def error_lines_def)

lemma on_file_system_concat:
  "filter on_file_system (concat (map (file_events w) ps)) = map Exists ps"
  by (induction ps) (simp_all add: on_file_system_file_events)

subsection \<open>Quotes in the command text\<close>

lemma single_quoted_open_command:
  "single_quoted (open_command a) = takeWhile (\<lambda>c. c \<noteq> sq) (apple_script a)"
  by (auto simp: single_quoted_def open_command_def apple_script_def sq_def dq_def
      takeWhile_append)

lemma sq_in_apple_script: "sq \<in> set (apple_script a) = (sq \<in> set a)"
  by (simp add: apple_script_def sq_def dq_def)

lemma single_quoted_is_script:
  "(single_quoted (open_command a) = apple_script a) = (sq \<notin> set a)"
proof
  assume "single_quoted (open_command a) = apple_script a"
  then have "takeWhile (\<lambda>c. c \<noteq> sq) (apple_script a) = apple_script a"
    by (simp add: single_quoted_open_command)
  then have "\<forall>c \<in> set (apple_script a). c \<noteq> sq"
    by (simp add: takeWhile_eq_all_conv)
  then show "sq \<notin> set a"
    using sq_in_apple_script [of a] by blast
next
  assume "sq \<notin> set a"
  then have "\<forall>c \<in> set (apple_script a). c \<noteq> sq"
    using sq_in_apple_script [of a] by blast
  then show "single_quoted (open_command a) = apple_script a"
    by (simp add: single_quoted_open_command takeWhile_eq_all_conv)
qed

lemma quoting_of_open_command:
  "filter is_quoting (open_command a) = [sq, dq, dq, dq] @ filter is_quoting a @ [dq, sq]"
  by (simp add: open_command_def is_quoting_def sq_def dq_def)

subsection \<open>Stripping and the captured output\<close>

text \<open>
  \<open>strip\<close> cuts white space off both ends and nothing else, and what is left neither
  starts nor ends with white space.
\<close>

lemma strip_is_trimmed:
  "\<exists>a b. s = a @ strip s @ b \<and> list_all isspace a \<and> list_all isspace b"
proof -
  let ?d = "dropWhile isspace s"
  have d: "?d = strip s @ rev (takeWhile isspace (rev ?d))"
    unfolding strip_def by (metis rev_append rev_rev_ident takeWhile_dropWhile_id)
  have "s = takeWhile isspace s @ ?d"
    by simp
  with d have "s = takeWhile isspace s @ strip s @ rev (takeWhile isspace (rev ?d))"
    by simp
  moreover have "list_all isspace (takeWhile isspace s)"
    by (auto simp: list_all_iff dest: set_takeWhileD)
  moreover have "list_all isspace (rev (takeWhile isspace (rev ?d)))"
    by (auto simp: list_all_iff dest: set_takeWhileD)
  ultimately show ?thesis by blast
qed

lemma strip_ends:
  "strip s = [] \<or> (\<not> isspace (hd (strip s)) \<and> \<not> isspace (last (strip s)))"
proof (cases "strip s = []")
  case True
  then show ?thesis by simp
next
  case ne: False
  let ?d = "dropWhile isspace s"
  let ?e = "dropWhile isspace (rev ?d)"
  from ne have e: "?e \<noteq> []" by (simp add: strip_def)
  then have "\<not> isspace (hd ?e)" by (simp add: hd_dropWhile)
  then have l: "\<not> isspace (last (strip s))"
    using e by (simp add: strip_def last_rev)
  from e have "rev ?d \<noteq> []" by (metis dropWhile.simps(1))
  then have d: "?d \<noteq> []" by simp
  then have hd: "\<not> isspace (hd ?d)" by (simp add: hd_dropWhile)
  have "hd (strip s) = last ?e" using e by (simp add: strip_def hd_rev)
  also have "\<dots> = last (rev ?d)"
    using e by (metis last_appendR takeWhile_dropWhile_id)
  also have "\<dots> = hd ?d" using d by (simp add: last_rev)
  finally show ?thesis using hd l by simp
qed

lemma isspace_codes:
  "isspace c = (of_char c \<in> {9, 10, 11, 12, 13, 28, 29, 30, 31, 32, 133, 160 :: nat})"
proof -
  have "\<And>n::nat. (9 \<le> n \<and> n \<le> 13) = (n \<in> {9, 10, 11, 12, 13})"
    by auto
  moreover have "\<And>n::nat. (28 \<le> n \<and> n \<le> 32) = (n \<in> {28, 29, 30, 31, 32})"
    by auto
  ultimately show ?thesis
    by (auto simp: isspace_def Let_def)
qed

text \<open>The captured standard output has no part in a run.\<close>

lemma turn_ignores_stdout:
  "turn (w\<lparr>shell := \<lambda>c. with_stdout (f c) (shell w c)\<rparr>) p t = turn w p t"
  by (cases "shell w (open_command (abspath w p))")
    (simp_all add: turn_def os_path_exists_def run_command_def subprocess_run_def print_def
      split: bool.splits)

lemma add_each_ignores_stdout:
  "add_each (w\<lparr>shell := \<lambda>c. with_stdout (f c) (shell w c)\<rparr>) ps t = add_each w ps t"
proof (induction ps arbitrary: t)
  case Nil
  show ?case by simp
next
  case (Cons p ps)
  then show ?case
    by (simp del: add_each.simps add: add_each_turn turn_ignores_stdout
        split: prod.splits sum.splits)
qed

lemma main_ignores_stdout:
  "main (w\<lparr>shell := \<lambda>c. with_stdout (f c) (shell w c)\<rparr>) t = main w t"
  by (simp add: main_def add_each_ignores_stdout os_chdir_def print_def
      split: prod.splits sum.splits dir_state.splits)

subsection \<open>Single turns and whole runs\<close>










lemma steady_from_filter:
  "filter (\<lambda>p. path_exists w p \<and> \<not> completes w (open_command (abspath w p))) ps = [] \<Longrightarrow>
   \<forall>p \<in> set ps. path_exists w p \<longrightarrow> completes w (command_for w p)"
  by (auto simp: filter_empty_conv command_for_def)

lemma main_steady_projections:
  assumes "stdout_fails_at w = None"
    and "filter (\<lambda>p. path_exists w p \<and> \<not> completes w (open_command (abspath w p)))
           files_to_add = []"
  shows "spawned (snd (main w [])) =
           (if directory w project_dir = Enterable
            then map (command_for w) (filter (path_exists w) files_to_add) else [])"
    and "probed (snd (main w [])) =
           (if directory w project_dir = Enterable then files_to_add else [])"
    and "filter (\<lambda>l. \<not> is_error_line l) (printed (snd (main w []))) =
           (if directory w project_dir = Enterable
            then map (decided_line w) files_to_add @ [closing_message] else [])"
    and "filter on_file_system (snd (main w [])) =
           Chdir project_dir #
           (if directory w project_dir = Enterable then map Exists files_to_add else [])"
proof -
  note c = steady_from_filter [OF assms(2)]
  have yes: "directory w project_dir = Enterable \<Longrightarrow>
      snd (main w []) = [Chdir project_dir] @ concat (map (file_events w) files_to_add) @
        [Print closing_message]"
    using main_steady [OF _ assms(1) c, of "[]"] by simp
  have no: "directory w project_dir \<noteq> Enterable \<Longrightarrow> snd (main w []) = [Chdir project_dir]"
    using main_no_directory [of w "[]"] by simp
  show "spawned (snd (main w [])) =
           (if directory w project_dir = Enterable
            then map (command_for w) (filter (path_exists w) files_to_add) else [])"
    using yes no by (simp add: spawned_append spawned_concat)
  show "probed (snd (main w [])) =
           (if directory w project_dir = Enterable then files_to_add else [])"
    using yes no by (simp add: probed_append probed_concat)
  show "filter (\<lambda>l. \<not> is_error_line l) (printed (snd (main w []))) =
           (if directory w project_dir = Enterable
            then map (decided_line w) files_to_add @ [closing_message] else [])"
    using yes no by (simp add: printed_append decided_concat is_error_closing)
  show "filter on_file_system (snd (main w [])) =
           Chdir project_dir #
           (if directory w project_dir = Enterable then map Exists files_to_add else [])"
    using yes no by (simp add: on_file_system_concat)
qed

lemma run_command_none:
  "fst (run_command w cmd t) = Inr None \<Longrightarrow>
   CHR 0x00 \<notin> set cmd \<and> (\<exists>r. shell w cmd = Completed r \<and> returncode r \<noteq> 0)"
  by (cases "shell w cmd")
    (auto simp: run_command_def subprocess_run_def print_def split: if_splits)

section \<open>The claims\<close>

subsection \<open>C1: one command per existing path, in list order\<close>

text \<open>
  Claim C1, amended. Take a run in which the project directory can be entered, every
  write to standard output succeeds and every command that is run completes, whatever
  its exit status. Then the commands \<open>subprocess.run\<close> is called with are exactly the
  \<open>osascript\<close> open commands of the listed paths that exist, one for each, in the
  order of the list: nothing is reordered, dropped, merged or tried again. The list has
  thirteen entries, all different. In any run at all these commands are a first part of
  that sequence: a run that an exception ends leaves out the later paths, and still
  reorders and repeats nothing.
\<close>

theorem commands_follow_the_list:
  assumes "directory w project_dir = Enterable"
    and "stdout_fails_at w = None"
    and "\<forall>p \<in> set files_to_add. path_exists w p \<longrightarrow> completes w (open_command (abspath w p))"
  shows "spawned (snd (main w [])) =
           map (\<lambda>p. ''osascript -e '' @ [CHR 0x27] @ ''tell application '' @ [CHR 0x22] @
                     ''Xcode'' @ [CHR 0x22] @ '' to open '' @ [CHR 0x22] @ abspath w p @
                     [CHR 0x22] @ '';'' @ [CHR 0x27])
               (filter (path_exists w) files_to_add)
         \<and> length files_to_add = 13 \<and> distinct files_to_add
         \<and> (\<exists>n. spawned (snd (main v [])) =
                 take n (map (\<lambda>p. ''osascript -e '' @ [CHR 0x27] @ ''tell application '' @
                                   [CHR 0x22] @ ''Xcode'' @ [CHR 0x22] @ '' to open '' @
                                   [CHR 0x22] @ abspath v p @ [CHR 0x22] @ '';'' @ [CHR 0x27])
                             (filter (path_exists v) files_to_add)))"
proof -
  have "main w [] = (Inr (), [] @ [Chdir project_dir] @
          concat (map (file_events w) files_to_add) @ [Print closing_message])"
    using assms by (intro main_steady) (simp_all add: command_for_def)
  then have full: "spawned (snd (main w [])) =
           map (\<lambda>p. ''osascript -e '' @ [CHR 0x27] @ ''tell application '' @ [CHR 0x22] @
                     ''Xcode'' @ [CHR 0x22] @ '' to open '' @ [CHR 0x22] @ abspath w p @
                     [CHR 0x22] @ '';'' @ [CHR 0x27])
               (filter (path_exists w) files_to_add)"
    by (simp add: spawned_append spawned_concat command_for_def open_command_def sq_def dq_def)
  have part: "\<exists>n. spawned (snd (main v [])) =
                 take n (map (\<lambda>p. ''osascript -e '' @ [CHR 0x27] @ ''tell application '' @
                                   [CHR 0x22] @ ''Xcode'' @ [CHR 0x22] @ '' to open '' @
                                   [CHR 0x22] @ abspath v p @ [CHR 0x22] @ '';'' @ [CHR 0x27])
                             (filter (path_exists v) files_to_add))"
  proof -
    have "(\<lambda>p. ''osascript -e '' @ [CHR 0x27] @ ''tell application '' @
                                   [CHR 0x22] @ ''Xcode'' @ [CHR 0x22] @ '' to open '' @
                                   [CHR 0x22] @ abspath v p @ [CHR 0x22] @ '';'' @ [CHR 0x27])
          = command_for v"
      by (rule ext) (simp add: command_for_def open_command_def sq_def dq_def)
    then show ?thesis
      using main_spawned_part [of v] by simp
  qed
  from full part files_to_add_length files_to_add_distinct show ?thesis
    by blast
qed

theorem commands_follow_the_list_witness:
  "directory example_world project_dir = Enterable \<and>
   stdout_fails_at example_world = None \<and>
   filter (\<lambda>p. path_exists example_world p \<and>
                \<not> completes example_world (open_command (abspath example_world p)))
     files_to_add = [] \<and>
   spawned (snd (main example_world [])) =
     [open_command (project_dir @ ''/PrestigeNative/Core/Models/APIEndpoints.swift''),
      open_command (project_dir @ ''/PrestigeNative/Core/Models/APIModels.swift'')]"
proof -
  have a: "directory example_world project_dir = Enterable"
    by (simp add: example_world_def)
  have b: "stdout_fails_at example_world = None"
    by (simp add: example_world_def)
  have c: "\<forall>p \<in> set files_to_add. path_exists example_world p \<longrightarrow>
             completes example_world (open_command (abspath example_world p))"
    by (simp add: example_world_def files_to_add_def completes_def open_command_def
        project_dir_def sq_def dq_def)
  then have d: "filter (\<lambda>p. path_exists example_world p \<and>
                \<not> completes example_world (open_command (abspath example_world p)))
     files_to_add = []"
    by (simp add: filter_empty_conv)
  have e: "filter (path_exists example_world) files_to_add =
      [''PrestigeNative/Core/Models/APIEndpoints.swift'',
       ''PrestigeNative/Core/Models/APIModels.swift'']"
    by (simp add: example_world_def files_to_add_def)
  have f: "abspath example_world = (\<lambda>p. project_dir @ ''/'' @ p)"
    by (simp add: example_world_def)
  from commands_follow_the_list [OF a b c, of example_world]
  have "spawned (snd (main example_world [])) =
     [open_command (project_dir @ ''/PrestigeNative/Core/Models/APIEndpoints.swift''),
      open_command (project_dir @ ''/PrestigeNative/Core/Models/APIModels.swift'')]"
    by (simp add: e f open_command_def sq_def dq_def)
  with a b d show ?thesis by blast
qed

text \<open>
  The claim as it was written fails where a command raises an exception that
  \<open>run_command\<close> does not catch: the output of the first command is not text, the run
  ends there, and the second listed file, which exists, gets no command.
\<close>

theorem commands_follow_the_list_counterexample:
  "directory broken_world project_dir = Enterable \<and>
   ''PrestigeNative/Core/Models/APIModels.swift'' \<in> set files_to_add \<and>
   path_exists broken_world ''PrestigeNative/Core/Models/APIModels.swift'' \<and>
   spawned (snd (main broken_world [])) =
     [open_command (project_dir @ ''/PrestigeNative/Core/Models/APIEndpoints.swift'')] \<and>
   open_command (abspath broken_world ''PrestigeNative/Core/Models/APIModels.swift'')
     \<notin> set (spawned (snd (main broken_world [])))"
  by (simp add: broken_world_def example_world_def files_to_add_def main_def os_chdir_def
      os_path_exists_def print_def run_command_def subprocess_run_def open_command_def
      project_dir_def sq_def dq_def)

subsection \<open>C2: a command that ends with a non-zero status is reported and the run goes on\<close>




subsection \<open>C3: a missing path is warned about and passed over\<close>




subsection \<open>C4: a missing project directory ends the run at once\<close>

text \<open>
  Claim C4, amended. When the project directory does not exist, \<open>main\<close> ends with the
  \<open>FileNotFoundError\<close> of \<open>os.chdir\<close> and the trace holds the attempted change of
  directory and nothing else: no existence check, no command, no line of output. The
  same holds, with the exception of its kind, whenever the directory cannot be entered.
  Among the runs in which every write to standard output succeeds and every command that
  is run completes, a failed change of directory is the only failure that ends the run:
  \<open>main\<close> returns normally exactly when the directory can be entered. Outside them a
  run also ends where a command raises an exception other than \<open>CalledProcessError\<close> or
  a write fails.
\<close>

theorem missing_directory_aborts:
  assumes "directory w project_dir = Missing"
  shows "main w [] = (Inl (FileNotFoundError project_dir), [Chdir project_dir])
         \<and> probed (snd (main w [])) = []
         \<and> spawned (snd (main w [])) = []
         \<and> printed (snd (main w [])) = []
         \<and> (directory v project_dir \<noteq> Enterable \<longrightarrow>
              snd (main v []) = [Chdir project_dir] \<and> fst (main v []) \<noteq> Inr ())
         \<and> (stdout_fails_at u = None \<and>
            filter (\<lambda>p. path_exists u p \<and> \<not> completes u (open_command (abspath u p)))
              files_to_add = [] \<longrightarrow>
              (fst (main u []) = Inr ()) = (directory u project_dir = Enterable))"
proof -
  have first: "main w [] = (Inl (FileNotFoundError project_dir), [Chdir project_dir])"
    using assms by (simp add: main_def os_chdir_def)
  have other: "directory v project_dir \<noteq> Enterable \<longrightarrow>
              snd (main v []) = [Chdir project_dir] \<and> fst (main v []) \<noteq> Inr ()"
    using main_no_directory [of v "[]"] by simp
  have only: "stdout_fails_at u = None \<and>
            filter (\<lambda>p. path_exists u p \<and> \<not> completes u (open_command (abspath u p)))
              files_to_add = [] \<longrightarrow>
              (fst (main u []) = Inr ()) = (directory u project_dir = Enterable)"
  proof (intro impI, elim conjE)
    assume s: "stdout_fails_at u = None"
      and c: "filter (\<lambda>p. path_exists u p \<and> \<not> completes u (open_command (abspath u p)))
              files_to_add = []"
    from c have c': "\<forall>p \<in> set files_to_add. path_exists u p \<longrightarrow> completes u (command_for u p)"
      by (auto simp: filter_empty_conv command_for_def)
    show "(fst (main u []) = Inr ()) = (directory u project_dir = Enterable)"
    proof (cases "directory u project_dir = Enterable")
      case True
      then show ?thesis using main_steady [OF True s c', of "[]"] by simp
    next
      case False
      then show ?thesis using main_no_directory [of u "[]"] by simp
    qed
  qed
  from first other only show ?thesis by simp
qed

theorem missing_directory_aborts_witness:
  "directory empty_world project_dir = Missing \<and>
   main empty_world [] = (Inl (FileNotFoundError project_dir), [Chdir project_dir]) \<and>
   directory file_world project_dir \<noteq> Enterable \<and>
   snd (main file_world []) = [Chdir project_dir] \<and>
   stdout_fails_at example_world = None \<and>
   filter (\<lambda>p. path_exists example_world p \<and>
                \<not> completes example_world (open_command (abspath example_world p)))
     files_to_add = [] \<and>
   fst (main example_world []) = Inr ()"
proof -
  have a: "directory empty_world project_dir = Missing"
    by (simp add: empty_world_def)
  have b: "directory file_world project_dir \<noteq> Enterable"
    by (simp add: file_world_def)
  have c: "stdout_fails_at example_world = None"
    by (simp add: example_world_def)
  have d: "filter (\<lambda>p. path_exists example_world p \<and>
                \<not> completes example_world (open_command (abspath example_world p)))
     files_to_add = []"
    by (simp add: example_world_def files_to_add_def completes_def open_command_def
        project_dir_def sq_def dq_def)
  have e: "directory example_world project_dir = Enterable"
    by (simp add: example_world_def)
  from missing_directory_aborts [OF a, of file_world example_world] a b c d e
  show ?thesis by simp
qed

text \<open>
  The claim as it was written names the missing directory as the only failure that ends a
  run. Here the directory is entered and the run ends with the exception of a command
  whose output is not text; and a plain file in the place of the directory ends the run
  with another exception of \<open>os.chdir\<close>.
\<close>

theorem missing_directory_aborts_counterexample:
  "directory broken_world project_dir = Enterable \<and>
   fst (main broken_world []) = Inl UnicodeDecodeError \<and>
   directory file_world project_dir = Not_a_directory \<and>
   main file_world [] = (Inl (NotADirectoryError project_dir), [Chdir project_dir])"
  by (simp add: broken_world_def file_world_def example_world_def files_to_add_def main_def
      os_chdir_def os_path_exists_def print_def run_command_def subprocess_run_def
      open_command_def project_dir_def sq_def dq_def)

subsection \<open>C5: the closing message\<close>




subsection \<open>C6: exit status 0 when nothing raises\<close>

text \<open>
  Claim C6, amended. Missing files and commands that end with a non-zero status do not
  change the exit status. In a run in which the project directory can be entered, every
  write to standard output succeeds, every command that is run completes, whatever its
  exit status, and the interpreter can flush the standard streams at its end, the loop
  and \<open>main\<close> return normally and the process ends with status 0. In general the
  status is 0 exactly when \<open>main\<close> returns normally and that flush succeeds; an exception
  that is not caught, from a command or from a write, gives another status.
\<close>

theorem per_file_failures_exit_zero:
  assumes "directory w project_dir = Enterable"
    and "stdout_fails_at w = None"
    and "\<forall>p \<in> set files_to_add. path_exists w p \<longrightarrow> completes w (open_command (abspath w p))"
    and "flush_ok w"
  shows "fst (add_each w files_to_add [Chdir project_dir]) = Inr ()
         \<and> fst (main w []) = Inr ()
         \<and> fst (script w) = 0
         \<and> (fst (script v) = 0) = (fst (main v []) = Inr () \<and> flush_ok v)
         \<and> snd (script v) = snd (main v [])"
proof -
  have c: "\<forall>p \<in> set files_to_add. path_exists w p \<longrightarrow> completes w (command_for w p)"
    using assms(3) by (simp add: command_for_def)
  have "fst (add_each w files_to_add [Chdir project_dir]) = Inr () \<and> fst (main w []) = Inr ()"
    using main_steady [OF assms(1,2) c, of "[]"]
      add_each_steady [OF assms(2) c, of "[Chdir project_dir]"]
    by simp
  moreover have g: "(fst (script v) = 0) = (fst (main v []) = Inr () \<and> flush_ok v)
         \<and> snd (script v) = snd (main v [])"
    by (cases "main v []") (auto simp: script_def split: sum.splits)
  moreover have "(fst (script w) = 0) = (fst (main w []) = Inr () \<and> flush_ok w)"
    by (cases "main w []") (auto simp: script_def split: sum.splits)
  ultimately show ?thesis
    using assms(4) by simp
qed

theorem per_file_failures_exit_zero_witness:
  "directory example_world project_dir = Enterable \<and>
   stdout_fails_at example_world = None \<and>
   filter (\<lambda>p. path_exists example_world p \<and>
                \<not> completes example_world (open_command (abspath example_world p)))
     files_to_add = [] \<and>
   flush_ok example_world \<and>
   length (filter (\<lambda>p. \<not> path_exists example_world p) files_to_add) = 11 \<and>
   returncode (result_of example_world (open_command (abspath example_world
      ''PrestigeNative/Core/Models/APIEndpoints.swift''))) = 1 \<and>
   fst (script example_world) = 0"
proof -
  have a: "directory example_world project_dir = Enterable"
    by (simp add: example_world_def)
  have b: "stdout_fails_at example_world = None"
    by (simp add: example_world_def)
  have c: "\<forall>p \<in> set files_to_add. path_exists example_world p \<longrightarrow>
             completes example_world (open_command (abspath example_world p))"
    by (simp add: example_world_def files_to_add_def completes_def open_command_def
        project_dir_def sq_def dq_def)
  then have d: "filter (\<lambda>p. path_exists example_world p \<and>
                \<not> completes example_world (open_command (abspath example_world p)))
     files_to_add = []"
    by (simp add: filter_empty_conv)
  have e: "flush_ok example_world"
    by (simp add: example_world_def)
  have f: "length (filter (\<lambda>p. \<not> path_exists example_world p) files_to_add) = 11"
    by (simp add: example_world_def files_to_add_def)
  have g: "returncode (result_of example_world (open_command (abspath example_world
      ''PrestigeNative/Core/Models/APIEndpoints.swift''))) = 1"
    by (simp add: example_world_def result_of_def failed_run_def)
  from per_file_failures_exit_zero [OF a b c e, of example_world] a b d e f g
  show ?thesis by blast
qed

text \<open>
  The claim as it was written promises status 0 whenever the loop is reached. This run
  reaches it, its first command ends with status 1 and output that is not text, the
  exception is not caught, and the process ends with status 1.
\<close>

theorem per_file_failures_exit_zero_counterexample:
  "directory broken_world project_dir = Enterable \<and>
   probed (snd (script broken_world)) = [''PrestigeNative/Core/Models/APIEndpoints.swift''] \<and>
   fst (script broken_world) = 1"
  by (simp add: broken_world_def example_world_def files_to_add_def script_def main_def
      os_chdir_def os_path_exists_def print_def run_command_def subprocess_run_def
      open_command_def project_dir_def sq_def dq_def)

subsection \<open>C7: the decisions depend on the existence state only\<close>



subsection \<open>C8: the file system is only asked about existence\<close>

text \<open>
  Claim C8. No event of any run reads, writes or removes a file. The events of a run that
  act on the file system are the change of directory and then existence checks of listed
  paths, one for each path the run reaches, in list order; in a run in which the
  directory can be entered, every write to standard output succeeds and every command
  that is run completes, these are the checks of all thirteen paths. What the commands
  handed to the shell do is outside the script and outside this statement.
\<close>

theorem only_existence_checks:
  "filter file_access (snd (main w [])) = []
   \<and> (\<exists>n. filter on_file_system (snd (main w [])) =
            Chdir project_dir # map Exists (take n files_to_add))
   \<and> (\<exists>n. probed (snd (main w [])) = take n files_to_add)
   \<and> (stdout_fails_at w = None \<and>
      filter (\<lambda>p. path_exists w p \<and> \<not> completes w (open_command (abspath w p)))
        files_to_add = [] \<longrightarrow>
        filter on_file_system (snd (main w [])) =
          Chdir project_dir #
          (if directory w project_dir = Enterable then map Exists files_to_add else [])
        \<and> probed (snd (main w [])) =
            (if directory w project_dir = Enterable then files_to_add else []))
   \<and> file_access (Read_file x) \<and> file_access (Write_file x) \<and> file_access (Remove_file x)
   \<and> on_file_system (Read_file x) \<and> on_file_system (Write_file x)
   \<and> on_file_system (Remove_file x)"
  using main_on_file_system_part [of w] main_probed_part [of w]
  by (simp add: main_file_access main_steady_projections)

theorem only_existence_checks_witness:
  "stdout_fails_at example_world = None \<and>
   filter (\<lambda>p. path_exists example_world p \<and>
                \<not> completes example_world (open_command (abspath example_world p)))
     files_to_add = [] \<and>
   filter on_file_system (snd (main example_world [])) =
     Chdir project_dir # map Exists files_to_add \<and>
   filter file_access (snd (main example_world [])) = []"
proof -
  have a: "directory example_world project_dir = Enterable"
    by (simp add: example_world_def)
  have b: "stdout_fails_at example_world = None"
    by (simp add: example_world_def)
  have c: "filter (\<lambda>p. path_exists example_world p \<and>
                \<not> completes example_world (open_command (abspath example_world p)))
     files_to_add = []"
    by (simp add: example_world_def files_to_add_def completes_def open_command_def
        project_dir_def sq_def dq_def)
  from only_existence_checks [of example_world] a b c show ?thesis
    by simp
qed

subsection \<open>C9: the command text, with the path put in as it is\<close>

text \<open>
  Claim C9. Every command of a run is the text \<open>osascript -e\<close>, a space, and between
  single quotes the AppleScript text that tells Xcode to open the absolute path of a
  listed path that exists, which stands between double quotes exactly as
  \<open>os.path.abspath\<close> returned it; the commands follow the list, and in a run in which
  every write to standard output succeeds and every command that is run completes there
  is one for each existing path. Nothing is escaped: the quotes and backslashes of the
  command are the four that open the text, those of the path unchanged, and the two that
  close it. So the shell reads the whole AppleScript text as the single-quoted word
  exactly when the path holds no single quote, and a path with a double quote gives a
  command with more than four of them.
\<close>

theorem command_text_is_unescaped:
  assumes "directory w project_dir = Enterable"
  shows "(stdout_fails_at w = None \<and>
          filter (\<lambda>p. path_exists w p \<and> \<not> completes w (open_command (abspath w p)))
            files_to_add = [] \<longrightarrow>
            spawned (snd (main w [])) =
              map (\<lambda>p. ''osascript -e '' @ [sq] @ ''tell application '' @ [dq] @ ''Xcode'' @
                        [dq] @ '' to open '' @ [dq] @ abspath w p @ [dq] @ '';'' @ [sq])
                  (filter (path_exists w) files_to_add))
         \<and> (\<exists>n. spawned (snd (main w [])) =
                 take n (map (\<lambda>p. ''osascript -e '' @ [sq] @ ''tell application '' @ [dq] @
                                   ''Xcode'' @ [dq] @ '' to open '' @ [dq] @ abspath w p @
                                   [dq] @ '';'' @ [sq])
                             (filter (path_exists w) files_to_add)))
         \<and> sq = CHR 0x27 \<and> dq = CHR 0x22
         \<and> open_command a = ''osascript -e '' @ [sq] @ apple_script a @ [sq]
         \<and> filter is_quoting (open_command a) = [sq, dq, dq, dq] @ filter is_quoting a @ [dq, sq]
         \<and> (single_quoted (open_command a) = apple_script a) = (sq \<notin> set a)
         \<and> (length (filter (\<lambda>c. c = dq) (open_command a)) = 4) = (dq \<notin> set a)"
proof -
  have lit: "(\<lambda>p. ''osascript -e '' @ [sq] @ ''tell application '' @ [dq] @ ''Xcode'' @
                        [dq] @ '' to open '' @ [dq] @ abspath w p @ [dq] @ '';'' @ [sq])
             = command_for w"
    by (rule ext) (simp add: command_for_def open_command_def)
  have cmds: "stdout_fails_at w = None \<and>
          filter (\<lambda>p. path_exists w p \<and> \<not> completes w (open_command (abspath w p)))
            files_to_add = [] \<longrightarrow>
            spawned (snd (main w [])) =
              map (command_for w) (filter (path_exists w) files_to_add)"
    using assms by (simp add: main_steady_projections)
  have shape: "open_command a = ''osascript -e '' @ [sq] @ apple_script a @ [sq]"
    by (simp add: open_command_def apple_script_def)
  have "length (filter (\<lambda>c. c = dq) (open_command a)) = 4 + length (filter (\<lambda>c. c = dq) a)"
    by (simp add: open_command_def sq_def dq_def)
  then have dqs: "(length (filter (\<lambda>c. c = dq) (open_command a)) = 4) = (dq \<notin> set a)"
    by (auto simp: filter_empty_conv)
  from cmds main_spawned_part [of w] shape quoting_of_open_command single_quoted_is_script dqs
    sq_def dq_def
  show ?thesis
    unfolding lit by blast
qed

theorem command_text_is_unescaped_witness:
  "directory example_world project_dir = Enterable \<and>
   stdout_fails_at example_world = None \<and>
   filter (\<lambda>p. path_exists example_world p \<and>
                \<not> completes example_world (open_command (abspath example_world p)))
     files_to_add = [] \<and>
   spawned (snd (main example_world [])) =
     map (\<lambda>p. ''osascript -e '' @ [sq] @ ''tell application '' @ [dq] @ ''Xcode'' @
               [dq] @ '' to open '' @ [dq] @ abspath example_world p @ [dq] @ '';'' @ [sq])
         (filter (path_exists example_world) files_to_add) \<and>
   open_command ''/a/it's.swift'' =
     ''osascript -e '' @ [sq] @ ''tell application '' @ [dq] @ ''Xcode'' @ [dq] @
     '' to open '' @ [dq] @ ''/a/it'' @ [sq] @ ''s.swift'' @ [dq] @ '';'' @ [sq] \<and>
   single_quoted (open_command ''/a/it's.swift'') =
     ''tell application '' @ [dq] @ ''Xcode'' @ [dq] @ '' to open '' @ [dq] @ ''/a/it''"
proof -
  have a: "directory example_world project_dir = Enterable"
    by (simp add: example_world_def)
  have b: "stdout_fails_at example_world = None"
    by (simp add: example_world_def)
  have c: "filter (\<lambda>p. path_exists example_world p \<and>
                \<not> completes example_world (open_command (abspath example_world p)))
     files_to_add = []"
    by (simp add: example_world_def files_to_add_def completes_def open_command_def
        project_dir_def sq_def dq_def)
  have d: "open_command ''/a/it's.swift'' =
     ''osascript -e '' @ [sq] @ ''tell application '' @ [dq] @ ''Xcode'' @ [dq] @
     '' to open '' @ [dq] @ ''/a/it'' @ [sq] @ ''s.swift'' @ [dq] @ '';'' @ [sq]"
    by (simp add: open_command_def sq_def dq_def)
  have e: "single_quoted (open_command ''/a/it's.swift'') =
     ''tell application '' @ [dq] @ ''Xcode'' @ [dq] @ '' to open '' @ [dq] @ ''/a/it''"
    by (simp add: open_command_def single_quoted_def sq_def dq_def)
  from command_text_is_unescaped [OF a, of "''/a/it's.swift''"] a b c d e
  show ?thesis by blast
qed

subsection \<open>C10: what \<open>run_command\<close> returns, and that \<open>main\<close> drops it\<close>

text \<open>
  Claim C10, amended. When the writes to standard output succeed, \<open>run_command\<close> on a
  command that completes returns, at status 0, the captured standard output with the
  white space at both ends removed, adding only the command to the trace, and at any
  other status adds the command and the two error lines and returns \<open>None\<close>. It returns
  \<open>None\<close> in no other case. A command that does not complete makes it raise instead,
  whatever the exit status. Removing the white space means: the result is the captured
  text without a first and a last part that are white space only, and it neither starts
  nor ends with white space, where white space is the code points 9 to 13, 28 to 32, 133
  and 160. A run of \<open>main\<close> does not depend on the captured standard output at all:
  replacing it by any other text in every completed process gives the same outcome and
  the same trace, so that text is never written.
\<close>

theorem run_command_result_is_dropped:
  assumes "stdout_fails_at w = None"
  shows "(CHR 0x00 \<notin> set cmd \<and> shell w cmd = Completed r \<and> returncode r = 0 \<longrightarrow>
            run_command w cmd t = (Inr (Some (strip (stdout r))), t @ [Shell cmd]))
         \<and> (CHR 0x00 \<notin> set cmd \<and> shell w cmd = Completed r \<and> returncode r \<noteq> 0 \<longrightarrow>
            run_command w cmd t =
              (Inr None, t @ [Shell cmd, Print (''Error running command: '' @ cmd),
                              Print (''Error: '' @ stderr r)]))
         \<and> (fst (run_command v c t') = Inr None \<longrightarrow>
              CHR 0x00 \<notin> set c \<and> (\<exists>r'. shell v c = Completed r' \<and> returncode r' \<noteq> 0))
         \<and> (\<not> completes v c \<longrightarrow> (\<exists>x. fst (run_command v c t') = Inl x))
         \<and> (\<exists>a b. s = a @ strip s @ b \<and> list_all isspace a \<and> list_all isspace b)
         \<and> (strip s = [] \<or> (\<not> isspace (hd (strip s)) \<and> \<not> isspace (last (strip s))))
         \<and> isspace k = (of_char k \<in> {9, 10, 11, 12, 13, 28, 29, 30, 31, 32, 133, 160 :: nat})
         \<and> with_stdout s (Completed r) = Completed (r\<lparr>stdout := s\<rparr>)
         \<and> main (v\<lparr>shell := \<lambda>c. with_stdout (f c) (shell v c)\<rparr>) t' = main v t'"
proof -
  have zero: "CHR 0x00 \<notin> set cmd \<and> shell w cmd = Completed r \<and> returncode r = 0 \<longrightarrow>
            run_command w cmd t = (Inr (Some (strip (stdout r))), t @ [Shell cmd])"
    by (simp add: run_command_def subprocess_run_def)
  have other: "CHR 0x00 \<notin> set cmd \<and> shell w cmd = Completed r \<and> returncode r \<noteq> 0 \<longrightarrow>
            run_command w cmd t =
              (Inr None, t @ [Shell cmd, Print (''Error running command: '' @ cmd),
                              Print (''Error: '' @ stderr r)])"
    using assms by (simp add: run_command_def subprocess_run_def print_def)
  have none: "fst (run_command v c t') = Inr None \<longrightarrow>
              CHR 0x00 \<notin> set c \<and> (\<exists>r'. shell v c = Completed r' \<and> returncode r' \<noteq> 0)"
    using run_command_none [of v c t'] by blast
  have raises: "\<not> completes v c \<longrightarrow> (\<exists>x. fst (run_command v c t') = Inl x)"
    by (cases "shell v c")
      (auto simp: completes_def run_command_def subprocess_run_def)
  have pin: "with_stdout s (Completed r) = Completed (r\<lparr>stdout := s\<rparr>)"
    by simp
  from zero other none raises strip_is_trimmed [of s] strip_ends [of s] isspace_codes [of k]
    pin main_ignores_stdout [where w = v and f = f and t = t']
  show ?thesis by blast
qed

theorem run_command_result_is_dropped_witness:
  "stdout_fails_at example_world = None \<and>
   shell example_world (open_command
      (project_dir @ ''/PrestigeNative/Core/Models/APIEndpoints.swift'')) =
     Completed failed_run \<and>
   returncode failed_run \<noteq> 0 \<and>
   run_command example_world (open_command
      (project_dir @ ''/PrestigeNative/Core/Models/APIEndpoints.swift'')) [] =
     (Inr None,
      [Shell (open_command (project_dir @ ''/PrestigeNative/Core/Models/APIEndpoints.swift'')),
       Print (''Error running command: '' @ open_command
         (project_dir @ ''/PrestigeNative/Core/Models/APIEndpoints.swift'')),
       Print ''Error: execution error'']) \<and>
   shell example_world (open_command
      (project_dir @ ''/PrestigeNative/Core/Models/APIModels.swift'')) = Completed good_run \<and>
   returncode good_run = 0 \<and> stdout good_run = '' done '' \<and>
   run_command example_world (open_command
      (project_dir @ ''/PrestigeNative/Core/Models/APIModels.swift'')) [] =
     (Inr (Some ''done''),
      [Shell (open_command (project_dir @ ''/PrestigeNative/Core/Models/APIModels.swift''))]) \<and>
   \<not> completes broken_world (open_command
      (project_dir @ ''/PrestigeNative/Core/Models/APIEndpoints.swift'')) \<and>
   fst (run_command broken_world (open_command
      (project_dir @ ''/PrestigeNative/Core/Models/APIEndpoints.swift'')) []) \<noteq> Inr None"
proof -
  have a: "stdout_fails_at example_world = None"
    by (simp add: example_world_def)
  have n1: "CHR 0x00 \<notin> set (open_command
      (project_dir @ ''/PrestigeNative/Core/Models/APIEndpoints.swift''))"
    by (simp add: open_command_def project_dir_def sq_def dq_def)
  have n2: "CHR 0x00 \<notin> set (open_command
      (project_dir @ ''/PrestigeNative/Core/Models/APIModels.swift''))"
    by (simp add: open_command_def project_dir_def sq_def dq_def)
  have s1: "shell example_world (open_command
      (project_dir @ ''/PrestigeNative/Core/Models/APIEndpoints.swift'')) =
     Completed failed_run"
    by (simp add: example_world_def)
  have s2: "shell example_world (open_command
      (project_dir @ ''/PrestigeNative/Core/Models/APIModels.swift'')) = Completed good_run"
    by (simp add: example_world_def open_command_def)
  have r1: "returncode failed_run \<noteq> 0" and e1: "stderr failed_run = ''execution error''"
    by (simp_all add: failed_run_def)
  have r2: "returncode good_run = 0" and o2: "stdout good_run = '' done ''"
    by (simp_all add: good_run_def)
  have st: "strip '' done '' = ''done''"
    by (simp add: strip_def isspace_def)
  have b: "\<not> completes broken_world (open_command
      (project_dir @ ''/PrestigeNative/Core/Models/APIEndpoints.swift''))"
    by (simp add: completes_def broken_world_def)
  from run_command_result_is_dropped [OF a,
      of "open_command (project_dir @ ''/PrestigeNative/Core/Models/APIEndpoints.swift'')"
         failed_run "[]" broken_world
         "open_command (project_dir @ ''/PrestigeNative/Core/Models/APIEndpoints.swift'')" "[]"]
    n1 s1 r1 e1 b
  have first: "run_command example_world (open_command
      (project_dir @ ''/PrestigeNative/Core/Models/APIEndpoints.swift'')) [] =
     (Inr None,
      [Shell (open_command (project_dir @ ''/PrestigeNative/Core/Models/APIEndpoints.swift'')),
       Print (''Error running command: '' @ open_command
         (project_dir @ ''/PrestigeNative/Core/Models/APIEndpoints.swift'')),
       Print ''Error: execution error''])"
    and third: "fst (run_command broken_world (open_command
      (project_dir @ ''/PrestigeNative/Core/Models/APIEndpoints.swift'')) []) \<noteq> Inr None"
    by auto
  from run_command_result_is_dropped [OF a,
      of "open_command (project_dir @ ''/PrestigeNative/Core/Models/APIModels.swift'')"
         good_run "[]"]
    n2 s2 r2 o2 st
  have second: "run_command example_world (open_command
      (project_dir @ ''/PrestigeNative/Core/Models/APIModels.swift'')) [] =
     (Inr (Some ''done''),
      [Shell (open_command (project_dir @ ''/PrestigeNative/Core/Models/APIModels.swift''))])"
    by simp
  from a s1 r1 first s2 r2 o2 second b third show ?thesis by blast
qed

text \<open>
  The claim as it was written has \<open>run_command\<close> return \<open>None\<close> whenever the command
  exits non-zero. Here the command ends with status 1, its output is not text, and
  \<open>run_command\<close> raises: it returns nothing and writes no error line.
\<close>

theorem run_command_result_is_dropped_counterexample:
  "shell broken_world (open_command
      (project_dir @ ''/PrestigeNative/Core/Models/APIEndpoints.swift'')) = Undecodable 1 \<and>
   run_command broken_world (open_command
      (project_dir @ ''/PrestigeNative/Core/Models/APIEndpoints.swift'')) [] =
     (Inl UnicodeDecodeError,
      [Shell (open_command (project_dir @ ''/PrestigeNative/Core/Models/APIEndpoints.swift''))])"
  by (simp add: broken_world_def run_command_def subprocess_run_def open_command_def
      project_dir_def sq_def dq_def)

end
